theory Spec2Isabelle
  imports Complex_Main "HOL-Library.Sublist" "HOL-Library.Code_Target_Nat"
begin

section \<open>JavaScript values\<close>

text \<open>
  The handler of \<^verbatim>\<open>bot.js\<close> works on values that come out of \<^verbatim>\<open>JSON.parse\<close> and
  out of \<^verbatim>\<open>process.env\<close>. A number is a double: a finite one is given by its value.
\<close>

datatype number = NaN | PosInfinity | NegInfinity | Finite rat

datatype jsval =
    Undefined
  | Null
  | Bool bool
  | Num number
  | Str string
  | Arr "jsval list"
  | Obj "(string \<times> jsval) list"

text \<open>
  What the code can throw: the \<^verbatim>\<open>SyntaxError\<close> of \<^verbatim>\<open>JSON.parse\<close>, a \<^verbatim>\<open>TypeError\<close>
  (reading a property of \<^verbatim>\<open>undefined\<close> or \<^verbatim>\<open>null\<close>, calling what is no function,
  \<^verbatim>\<open>in\<close> on a primitive), the string \<^verbatim>\<open>'Verification failed'\<close> of \<^verbatim>\<open>verifyCall\<close>, and
  the error object an API client rejects with. The latter is kept as the text
  \<^verbatim>\<open>JSON.stringify\<close> makes of it, \<open>None\<close> when \<^verbatim>\<open>JSON.stringify\<close> itself throws on it
  (a circular object).
\<close>

datatype thrown = SyntaxError | TypeError | Verification_failed | ApiError "string option"

text \<open>
  \<^verbatim>\<open>v.name\<close>, for the property names the source reads (\<^verbatim>\<open>type\<close>, \<^verbatim>\<open>token\<close>,
  \<^verbatim>\<open>challenge\<close>, \<^verbatim>\<open>event\<close>, \<^verbatim>\<open>bot_id\<close>, \<^verbatim>\<open>text\<close>, \<^verbatim>\<open>channel\<close>): none of them is a
  property of a prototype, so a primitive or an array has none of them.
\<close>

fun get_property :: "jsval \<Rightarrow> string \<Rightarrow> thrown + jsval" where
  "get_property Undefined name = Inl TypeError"
| "get_property Null name = Inl TypeError"
| "get_property (Obj kvs) name = Inr (case map_of kvs name of None \<Rightarrow> Undefined | Some v \<Rightarrow> v)"
| "get_property v name = Inr Undefined"

text \<open>\<^verbatim>\<open>'X-Slack-Retry-Num' in v\<close>: a \<^verbatim>\<open>TypeError\<close> unless \<open>v\<close> is an object.\<close>

fun retry_header_in :: "jsval \<Rightarrow> thrown + bool" where
  "retry_header_in (Obj kvs) = Inr (map_of kvs ''X-Slack-Retry-Num'' \<noteq> None)"
| "retry_header_in (Arr xs) = Inr False"
| "retry_header_in v = Inl TypeError"

text \<open>Truthiness, as \<^verbatim>\<open>!message.bot_id\<close> tests it.\<close>

fun truthy :: "jsval \<Rightarrow> bool" where
  "truthy Undefined = False"
| "truthy Null = False"
| "truthy (Bool b) = b"
| "truthy (Num n) = (n \<noteq> NaN \<and> n \<noteq> Finite 0)"
| "truthy (Str s) = (s \<noteq> [])"
| "truthy (Arr xs) = True"
| "truthy (Obj kvs) = True"

text \<open>\<^verbatim>\<open>typeof v === 'string'\<close>.\<close>

fun is_string :: "jsval \<Rightarrow> bool" where
  "is_string (Str s) = True"
| "is_string v = False"

text \<open>
  \<^verbatim>\<open>a === b\<close>. Two objects are equal only when they are the same object; the source
  compares a parsed value with a literal or with an environment variable, never an object
  with itself.
\<close>

fun strict_equals :: "jsval \<Rightarrow> jsval \<Rightarrow> bool" where
  "strict_equals Undefined Undefined = True"
| "strict_equals Null Null = True"
| "strict_equals (Bool a) (Bool b) = (a = b)"
| "strict_equals (Num a) (Num b) = (a = b \<and> a \<noteq> NaN)"
| "strict_equals (Str a) (Str b) = (a = b)"
| "strict_equals a b = False"

section \<open>The environment of the handler\<close>

text \<open>\<^verbatim>\<open>process.env\<close>: a variable that is not set reads as \<^verbatim>\<open>undefined\<close>.\<close>

record process_env =
  VERIFICATION_TOKEN :: "string option"
  BOT_TOKEN :: "string option"
  BOT_NAME :: "string option"
  CDN_DISTRIBUTION :: "string option"

definition env_value :: "string option \<Rightarrow> jsval" where
  "env_value x = (case x of None \<Rightarrow> Undefined | Some s \<Rightarrow> Str s)"

text \<open>An environment variable inside a template literal.\<close>

definition env_text :: "string option \<Rightarrow> string" where
  "env_text x = (case x of None \<Rightarrow> ''undefined'' | Some s \<Rightarrow> s)"

text \<open>The parameters of the two outbound calls, and the calls an invocation performs.\<close>

record invalidation_params =
  DistributionId :: jsval
  CallerReference :: string
  Paths_Quantity :: string
  Paths_Items :: "string list"

record postMessage_params =
  token :: jsval
  channel :: jsval
  "text" :: string

datatype call = CreateInvalidation invalidation_params | PostMessage postMessage_params

text \<open>What CloudFront answers on success: \<^verbatim>\<open>data.Invalidation.Id\<close>.\<close>

record invalidation_data =
  Invalidation_Id :: string

text \<open>
  The runtime and the two API clients, which are not code of the repository:
  \<^verbatim>\<open>JSON.parse\<close>, \<^verbatim>\<open>Date.now()\<close>, \<^verbatim>\<open>CloudFront.createInvalidation\<close> (an error or the
  data) and \<^verbatim>\<open>Slack.chat.postMessage\<close> (a promise that rejects or resolves).
  Both clients are taken to answer: a call that never settles is not modelled.
\<close>

record runtime =
  JSON_parse :: "string \<Rightarrow> thrown + jsval"
  Date_now :: nat
  CloudFront_createInvalidation :: "invalidation_params \<Rightarrow> thrown + invalidation_data"
  Slack_chat_postMessage :: "postMessage_params \<Rightarrow> thrown + unit"

text \<open>\<^verbatim>\<open>JSON.stringify(err)\<close> in the catch block: an Error object has no enumerable property.\<close>

fun JSON_stringify :: "thrown \<Rightarrow> thrown + jsval" where
  "JSON_stringify SyntaxError = Inr (Str ''{}'')"
| "JSON_stringify TypeError = Inr (Str ''{}'')"
| "JSON_stringify Verification_failed = Inr (Str (CHR 0x22 # ''Verification failed'' @ [CHR 0x22]))"
| "JSON_stringify (ApiError (Some s)) = Inr (Str s)"
| "JSON_stringify (ApiError None) = Inl TypeError"

text \<open>\<^verbatim>\<open>Date.now() + ''\<close>: the decimal digits of the time stamp.\<close>

fun decimal :: "nat \<Rightarrow> string" where
  "decimal n =
     (if n < 10 then [''0123456789'' ! n]
      else decimal (n div 10) @ [''0123456789'' ! (n mod 10)])"

declare decimal.simps [simp del]

section \<open>The data of a request\<close>

record request =
  body :: string
  headers :: jsval

record response =
  statusCode :: int
  body :: jsval
  headers :: jsval

section \<open>parseMessage\<close>

text \<open>\<^verbatim>\<open>s.split(c)\<close> for a separator of one character: the pieces between its occurrences.\<close>

fun split_sep :: "char \<Rightarrow> string \<Rightarrow> string list" where
  "split_sep c [] = [[]]"
| "split_sep c (x # xs) =
     (if x = c then [] # split_sep c xs
      else (case split_sep c xs of [] \<Rightarrow> [[x]] | p # ps \<Rightarrow> (x # p) # ps))"

text \<open>\<^verbatim>\<open>s.split(c, limit)\<close> keeps the first \<open>limit\<close> pieces.\<close>

definition js_split :: "string \<Rightarrow> char \<Rightarrow> nat \<Rightarrow> string list" where
  "js_split s c limit = take limit (split_sep c s)"

text \<open>\<^verbatim>\<open>pieces.pop()\<close>: the last element, \<^verbatim>\<open>undefined\<close> on an empty array.\<close>

definition pop :: "string list \<Rightarrow> jsval" where
  "pop pieces = (if pieces = [] then Undefined else Str (last pieces))"

text \<open>
  \<^verbatim>\<open>message.split( ' ', 2 ).pop()\<close>. Only a string has a \<^verbatim>\<open>split\<close> method: on anything
  else the call is a \<^verbatim>\<open>TypeError\<close>.
\<close>

definition parseMessage :: "jsval \<Rightarrow> thrown + jsval" where
  "parseMessage message =
     (case message of Str s \<Rightarrow> Inr (pop (js_split s CHR '' '' 2)) | _ \<Rightarrow> Inl TypeError)"

section \<open>verifyCall\<close>

definition verifyCall :: "process_env \<Rightarrow> jsval \<Rightarrow> thrown + jsval" where
  "verifyCall env data =
     (case get_property data ''token'' of
        Inl err \<Rightarrow> Inl err
      | Inr tok \<Rightarrow>
          if strict_equals tok (env_value (VERIFICATION_TOKEN env))
          then get_property data ''challenge''
          else Inl Verification_failed)"

section \<open>The outbound calls\<close>

text \<open>
  An effectful function takes the calls performed so far and returns them with its own
  appended, beside what it returns or throws.
\<close>

definition sendSlackMessage ::
  "runtime \<Rightarrow> process_env \<Rightarrow> jsval \<Rightarrow> string \<Rightarrow> call list \<Rightarrow> (thrown + unit) \<times> call list" where
  "sendSlackMessage rt env chan message calls =
     (let params = \<lparr>token = env_value (BOT_TOKEN env), channel = chan, text = message\<rparr>
      in (Slack_chat_postMessage rt params, calls @ [PostMessage params]))"

definition invalidateDistribution ::
  "runtime \<Rightarrow> process_env \<Rightarrow> call list \<Rightarrow> (thrown + invalidation_data) \<times> call list" where
  "invalidateDistribution rt env calls =
     (let params = \<lparr>DistributionId = env_value (CDN_DISTRIBUTION env),
                     CallerReference = decimal (Date_now rt),
                     Paths_Quantity = ''1'',
                     Paths_Items = [''/*'']\<rparr>
      in (CloudFront_createInvalidation rt params, calls @ [CreateInvalidation params]))"

section \<open>handleMessage\<close>

definition invalidated_text :: "string \<Rightarrow> string" where
  \<open>invalidated_text ident =
     ''Sir/Madam, I've just invalidated the cache, this is the invalidation ID. *'' @ ident @ ''*''\<close>

definition help_text :: "process_env \<Rightarrow> string" where
  \<open>help_text env =
     ''Sir/Madam, I don't understand what you need. Please use `@'' @ env_text (BOT_NAME env)
       @ '' invalidate_cdn` to clear the CDN cache.''\<close>

text \<open>The \<^verbatim>\<open>switch ( command )\<close> of \<^verbatim>\<open>handleMessage\<close>.\<close>

definition handleMessage_switch ::
  "runtime \<Rightarrow> process_env \<Rightarrow> jsval \<Rightarrow> jsval \<Rightarrow> call list \<Rightarrow> (thrown + unit) \<times> call list" where
  "handleMessage_switch rt env message command calls =
     (if strict_equals command (Str ''invalidate_cdn'') then
        (case invalidateDistribution rt env calls of
           (Inl err, calls1) \<Rightarrow> (Inl err, calls1)
         | (Inr invalidationData, calls1) \<Rightarrow>
             (case get_property message ''channel'' of
                Inl err \<Rightarrow> (Inl err, calls1)
              | Inr chan \<Rightarrow>
                  sendSlackMessage rt env chan
                    (invalidated_text (Invalidation_Id invalidationData)) calls1))
      else
        (case get_property message ''channel'' of
           Inl err \<Rightarrow> (Inl err, calls)
         | Inr chan \<Rightarrow> sendSlackMessage rt env chan (help_text env) calls))"

definition handleMessage ::
  "runtime \<Rightarrow> process_env \<Rightarrow> jsval \<Rightarrow> call list \<Rightarrow> (thrown + unit) \<times> call list" where
  "handleMessage rt env message calls =
     (case get_property message ''bot_id'' of
        Inl err \<Rightarrow> (Inl err, calls)
      | Inr bot_id \<Rightarrow>
          if \<not> truthy bot_id then
            (case get_property message ''text'' of
               Inl err \<Rightarrow> (Inl err, calls)
             | Inr txt \<Rightarrow>
                 (case parseMessage txt of
                    Inl err \<Rightarrow> (Inl err, calls)
                  | Inr command \<Rightarrow> handleMessage_switch rt env message command calls))
          else (Inr (), calls))"

section \<open>run\<close>

definition default_response :: response where
  "default_response =
     \<lparr>statusCode = 200, body = Obj [], headers = Obj [(''X-Slack-No-Retry'', Num (Finite 1))]\<rparr>"

text \<open>
  The \<^verbatim>\<open>try\<close> block: what it throws or that it completes, the response object as it
  stands then, and the calls performed.
\<close>

definition try_block ::
  "runtime \<Rightarrow> process_env \<Rightarrow> request \<Rightarrow> jsval \<Rightarrow> response \<Rightarrow> (thrown + unit) \<times> response \<times> call list" where
  "try_block rt env data dataObject resp =
     (case retry_header_in (request.headers data) of
        Inl err \<Rightarrow> (Inl err, resp, [])
      | Inr True \<Rightarrow> (Inr (), resp, [])
      | Inr False \<Rightarrow>
          (case get_property dataObject ''type'' of
             Inl err \<Rightarrow> (Inl err, resp, [])
           | Inr ty \<Rightarrow>
               if strict_equals ty (Str ''url_verification'') then
                 (case verifyCall env dataObject of
                    Inl err \<Rightarrow> (Inl err, resp, [])
                  | Inr challenge \<Rightarrow> (Inr (), resp\<lparr>body := challenge\<rparr>, []))
               else if strict_equals ty (Str ''event_callback'') then
                 (case get_property dataObject ''event'' of
                    Inl err \<Rightarrow> (Inl err, resp, [])
                  | Inr event \<Rightarrow>
                      (case handleMessage rt env event [] of
                         (Inl err, calls) \<Rightarrow> (Inl err, resp, calls)
                       | (Inr u, calls) \<Rightarrow> (Inr (), resp\<lparr>body := Obj [(''ok'', Bool True)]\<rparr>, calls)))
               else (Inr (), resp\<lparr>statusCode := 400, body := Str ''Empty request''\<rparr>, [])))"

text \<open>
  The \<^verbatim>\<open>catch\<close> block: \<^verbatim>\<open>response.statusCode = 500, response.body = JSON.stringify( err )\<close>.
  The status is assigned first; when \<^verbatim>\<open>JSON.stringify\<close> throws, the body stays.
\<close>

definition catch_block :: "thrown \<Rightarrow> response \<Rightarrow> response" where
  "catch_block err resp =
     (let resp1 = resp\<lparr>statusCode := 500\<rparr>
      in case JSON_stringify err of Inl err2 \<Rightarrow> resp1 | Inr s \<Rightarrow> resp1\<lparr>body := s\<rparr>)"

text \<open>
  The handler: \<open>Inl\<close> is the rejection of the promise it returns, \<open>Inr\<close> the response.
  \<^verbatim>\<open>JSON.parse\<close> is called before the \<^verbatim>\<open>try\<close>; the \<^verbatim>\<open>finally\<close> block returns the
  response whatever the \<^verbatim>\<open>try\<close> and the \<^verbatim>\<open>catch\<close> blocks did.
\<close>

definition run :: "runtime \<Rightarrow> process_env \<Rightarrow> request \<Rightarrow> (thrown + response) \<times> call list" where
  "run rt env data =
     (case JSON_parse rt (request.body data) of
        Inl err \<Rightarrow> (Inl err, [])
      | Inr dataObject \<Rightarrow>
          (case try_block rt env data dataObject default_response of
             (Inl err, resp, calls) \<Rightarrow> (Inr (catch_block err resp), calls)
           | (Inr u, resp, calls) \<Rightarrow> (Inr resp, calls)))"

section \<open>Example requests\<close>

text \<open>
  A configuration, request bodies with the values \<^verbatim>\<open>JSON.parse\<close> gives for them, and
  API clients that succeed or fail, for the examples below. \<^verbatim>\<open>JSON.parse\<close> is tabulated
  on these bodies; the one other body of the examples, \<^verbatim>\<open>not json\<close>, is no JSON text.
\<close>

definition example_env :: process_env where
  "example_env =
     \<lparr>VERIFICATION_TOKEN = Some ''s3cret'', BOT_TOKEN = Some ''xoxb-1'',
      BOT_NAME = Some ''cdnbot'', CDN_DISTRIBUTION = Some ''E2QWRUHAPOMQZL''\<rparr>"

definition verification_body :: string where
  \<open>verification_body = ''{"type":"url_verification","token":"s3cret","challenge":"abc123"}''\<close>

definition wrong_token_body :: string where
  \<open>wrong_token_body = ''{"type":"url_verification","token":"guess","challenge":"abc123"}''\<close>

definition invalidate_body :: string where
  \<open>invalidate_body =
     ''{"type":"event_callback","event":{"text":"@bot invalidate_cdn","channel":"C1"}}''\<close>

definition bare_command_body :: string where
  \<open>bare_command_body =
     ''{"type":"event_callback","event":{"text":"invalidate_cdn","channel":"C1"}}''\<close>

definition foobar_body :: string where
  \<open>foobar_body = ''{"type":"event_callback","event":{"text":"@bot foobar","channel":"C1"}}''\<close>

definition bot_body :: string where
  \<open>bot_body =
     ''{"type":"event_callback","event":{"text":"done","channel":"C1","bot_id":"B1"}}''\<close>

definition bot_command_body :: string where
  \<open>bot_command_body =
     ''{"type":"event_callback","event":{"text":"invalidate_cdn","channel":"C1","bot_id":"B1"}}''\<close>

definition no_text_body :: string where
  \<open>no_text_body = ''{"type":"event_callback","event":{"channel":"C1"}}''\<close>

definition other_type_body :: string where
  \<open>other_type_body = ''{"type":"app_rate_limited"}''\<close>

definition event_message :: "string \<Rightarrow> jsval" where
  "event_message txt =
     Obj [(''type'', Str ''event_callback''),
          (''event'', Obj [(''text'', Str txt), (''channel'', Str ''C1'')])]"

definition example_parse :: "string \<Rightarrow> thrown + jsval" where
  "example_parse s =
     (if s = verification_body then
        Inr (Obj [(''type'', Str ''url_verification''), (''token'', Str ''s3cret''),
                  (''challenge'', Str ''abc123'')])
      else if s = wrong_token_body then
        Inr (Obj [(''type'', Str ''url_verification''), (''token'', Str ''guess''),
                  (''challenge'', Str ''abc123'')])
      else if s = invalidate_body then Inr (event_message ''@bot invalidate_cdn'')
      else if s = bare_command_body then Inr (event_message ''invalidate_cdn'')
      else if s = foobar_body then Inr (event_message ''@bot foobar'')
      else if s = bot_body then
        Inr (Obj [(''type'', Str ''event_callback''),
                  (''event'', Obj [(''text'', Str ''done''), (''channel'', Str ''C1''),
                                   (''bot_id'', Str ''B1'')])])
      else if s = bot_command_body then
        Inr (Obj [(''type'', Str ''event_callback''),
                  (''event'', Obj [(''text'', Str ''invalidate_cdn''), (''channel'', Str ''C1''),
                                   (''bot_id'', Str ''B1'')])])
      else if s = no_text_body then
        Inr (Obj [(''type'', Str ''event_callback''),
                  (''event'', Obj [(''channel'', Str ''C1'')])])
      else if s = other_type_body then Inr (Obj [(''type'', Str ''app_rate_limited'')])
      else Inl SyntaxError)"

definition example_runtime :: runtime where
  "example_runtime =
     \<lparr>JSON_parse = example_parse,
      Date_now = 1700000000000,
      CloudFront_createInvalidation = (\<lambda>params. Inr \<lparr>Invalidation_Id = ''I2J0I21PCUYOIK''\<rparr>),
      Slack_chat_postMessage = (\<lambda>params. Inr ())\<rparr>"

definition access_denied :: thrown where
  \<open>access_denied = ApiError (Some ''{"code":"AccessDenied","statusCode":403}'')\<close>

definition failing_runtime :: runtime where
  "failing_runtime =
     example_runtime\<lparr>CloudFront_createInvalidation := (\<lambda>params. Inl access_denied)\<rparr>"

definition no_headers :: jsval where
  "no_headers = Obj [(''Content-Type'', Str ''application/json'')]"

definition retry_headers :: jsval where
  "retry_headers =
     Obj [(''Content-Type'', Str ''application/json''), (''X-Slack-Retry-Num'', Str ''1'')]"

definition example_invalidation :: invalidation_params where
  "example_invalidation =
     \<lparr>DistributionId = Str ''E2QWRUHAPOMQZL'', CallerReference = ''1700000000000'',
      Paths_Quantity = ''1'', Paths_Items = [''/*'']\<rparr>"

section \<open>Properties of parseMessage\<close>

lemma split_sep_not_Nil: "split_sep c s \<noteq> []"
  by (induction s) (auto split: list.splits)

lemma split_sep_no_sep: "c \<notin> set s \<Longrightarrow> split_sep c s = [s]"
  by (induction s) auto

lemma split_sep_pieces:
  "split_sep c s =
     takeWhile (\<lambda>x. x \<noteq> c) s #
       (if c \<in> set s then split_sep c (tl (dropWhile (\<lambda>x. x \<noteq> c) s)) else [])"
  by (induction s) (auto split: list.splits)

lemma take_Suc_0_split_sep: "take (Suc 0) (split_sep c s) = [takeWhile (\<lambda>x. x \<noteq> c) s]"
  by (subst split_sep_pieces) simp

lemma js_split_2:
  "js_split s c 2 =
     (if c \<in> set s
      then [takeWhile (\<lambda>x. x \<noteq> c) s,
            takeWhile (\<lambda>x. x \<noteq> c) (tl (dropWhile (\<lambda>x. x \<noteq> c) s))]
      else [s])"
proof (cases "c \<in> set s")
  case True
  have "take 2 (split_sep c s) =
      takeWhile (\<lambda>x. x \<noteq> c) s # take (Suc 0) (split_sep c (tl (dropWhile (\<lambda>x. x \<noteq> c) s)))"
    using True by (subst split_sep_pieces) (simp add: numeral_2_eq_2)
  then show ?thesis
    using True by (simp add: js_split_def take_Suc_0_split_sep)
next
  case False
  then show ?thesis
    by (simp add: js_split_def split_sep_no_sep)
qed

lemma parseMessage_Str:
  "parseMessage (Str s) =
     Inr (Str (if CHR '' '' \<in> set s
               then takeWhile (\<lambda>x. x \<noteq> CHR '' '') (tl (dropWhile (\<lambda>x. x \<noteq> CHR '' '') s))
               else s))"
  by (simp add: parseMessage_def pop_def js_split_2)

section \<open>The shape of run\<close>

lemma run_parse_error:
  "JSON_parse rt (request.body data) = Inl err \<Longrightarrow> run rt env data = (Inl err, [])"
  by (simp add: run_def)

lemma run_parsed:
  "JSON_parse rt (request.body data) = Inr dataObject \<Longrightarrow>
   run rt env data =
     (case try_block rt env data dataObject default_response of
        (Inl err, resp, calls) \<Rightarrow> (Inr (catch_block err resp), calls)
      | (Inr u, resp, calls) \<Rightarrow> (Inr resp, calls))"
  by (simp add: run_def)

lemma run_parsed_response:
  "JSON_parse rt (request.body data) = Inr dataObject \<Longrightarrow> \<exists>resp. fst (run rt env data) = Inr resp"
  by (simp add: run_parsed split: prod.splits sum.splits)

lemma try_block_retry:
  "retry_header_in (request.headers data) = Inr True \<Longrightarrow>
   try_block rt env data dataObject resp = (Inr (), resp, [])"
  by (simp add: try_block_def)

lemma try_block_event_callback:
  assumes "retry_header_in (request.headers data) = Inr False"
      and "get_property dataObject ''type'' = Inr (Str ''event_callback'')"
      and "get_property dataObject ''event'' = Inr message"
  shows "try_block rt env data dataObject resp =
     (case handleMessage rt env message [] of
        (Inl err, calls) \<Rightarrow> (Inl err, resp, calls)
      | (Inr u, calls) \<Rightarrow> (Inr (), resp\<lparr>body := Obj [(''ok'', Bool True)]\<rparr>, calls))"
  using assms by (simp add: try_block_def)

lemma run_event_callback:
  assumes "JSON_parse rt (request.body data) = Inr dataObject"
      and "retry_header_in (request.headers data) = Inr False"
      and "get_property dataObject ''type'' = Inr (Str ''event_callback'')"
      and "get_property dataObject ''event'' = Inr message"
  shows "run rt env data =
     (case handleMessage rt env message [] of
        (Inl err, calls) \<Rightarrow> (Inr (catch_block err default_response), calls)
      | (Inr u, calls) \<Rightarrow> (Inr (default_response\<lparr>body := Obj [(''ok'', Bool True)]\<rparr>), calls))"
  using assms by (simp add: run_parsed try_block_event_callback split: prod.splits sum.splits)

lemma handleMessage_not_bot:
  assumes "get_property message ''bot_id'' = Inr bot_id" and "\<not> truthy bot_id"
      and "get_property message ''text'' = Inr txt"
  shows "handleMessage rt env message calls =
     (case parseMessage txt of
        Inl err \<Rightarrow> (Inl err, calls)
      | Inr command \<Rightarrow> handleMessage_switch rt env message command calls)"
  using assms by (simp add: handleMessage_def)

lemma handleMessage_bot:
  assumes "get_property message ''bot_id'' = Inr bot_id" and "truthy bot_id"
  shows "handleMessage rt env message calls = (Inr (), calls)"
  using assms by (simp add: handleMessage_def)

lemma try_block_headers:
  "try_block rt env data dataObject resp = (r, resp', calls) \<Longrightarrow>
   response.headers resp' = response.headers resp"
  by (auto simp: try_block_def split: sum.splits bool.splits if_splits prod.splits)

lemma catch_block_headers: "response.headers (catch_block err resp) = response.headers resp"
  by (simp add: catch_block_def Let_def split: sum.splits)

lemma catch_block_statusCode: "statusCode (catch_block err resp) = 500"
  by (simp add: catch_block_def Let_def split: sum.splits)

lemma run_headers:
  assumes "fst (run rt env data) = Inr resp"
  shows "response.headers resp = Obj [(''X-Slack-No-Retry'', Num (Finite 1))]"
proof (cases "JSON_parse rt (request.body data)")
  case (Inl err)
  with assms show ?thesis by (simp add: run_def)
next
  case (Inr dataObject)
  obtain r resp' calls where t: "try_block rt env data dataObject default_response = (r, resp', calls)"
    by (cases "try_block rt env data dataObject default_response") auto
  have h: "response.headers resp' = Obj [(''X-Slack-No-Retry'', Num (Finite 1))]"
    using try_block_headers [OF t] by (simp add: default_response_def)
  show ?thesis
    using assms Inr t h by (cases r) (auto simp: run_def catch_block_headers)
qed

lemma switch_invalidate_cdn:
  "handleMessage_switch rt env message (Str ''invalidate_cdn'') calls =
     (let params = \<lparr>DistributionId = env_value (CDN_DISTRIBUTION env),
                     CallerReference = decimal (Date_now rt),
                     Paths_Quantity = ''1'', Paths_Items = [''/*'']\<rparr>
      in case CloudFront_createInvalidation rt params of
           Inl err \<Rightarrow> (Inl err, calls @ [CreateInvalidation params])
         | Inr d \<Rightarrow>
             (case get_property message ''channel'' of
                Inl err \<Rightarrow> (Inl err, calls @ [CreateInvalidation params])
              | Inr chan \<Rightarrow>
                  (let msg = \<lparr>token = env_value (BOT_TOKEN env), channel = chan,
                              text = invalidated_text (Invalidation_Id d)\<rparr>
                   in (Slack_chat_postMessage rt msg,
                       calls @ [CreateInvalidation params, PostMessage msg]))))"
  by (simp add: handleMessage_switch_def invalidateDistribution_def sendSlackMessage_def
      Let_def split: sum.splits)

lemma switch_default:
  "\<not> strict_equals command (Str ''invalidate_cdn'') \<Longrightarrow>
   get_property message ''channel'' = Inr chan \<Longrightarrow>
   handleMessage_switch rt env message command calls =
     (let msg = \<lparr>token = env_value (BOT_TOKEN env), channel = chan, text = help_text env\<rparr>
      in (Slack_chat_postMessage rt msg, calls @ [PostMessage msg]))"
  by (simp add: handleMessage_switch_def sendSlackMessage_def Let_def)

lemma run_not_bot:
  assumes "JSON_parse rt (request.body data) = Inr dataObject"
      and "retry_header_in (request.headers data) = Inr False"
      and "get_property dataObject ''type'' = Inr (Str ''event_callback'')"
      and "get_property dataObject ''event'' = Inr message"
      and "get_property message ''bot_id'' = Inr bot_id" and "\<not> truthy bot_id"
      and "get_property message ''text'' = Inr txt"
      and "parseMessage txt = Inr command"
  shows "run rt env data =
     (case handleMessage_switch rt env message command [] of
        (Inl err, calls) \<Rightarrow> (Inr (catch_block err default_response), calls)
      | (Inr u, calls) \<Rightarrow> (Inr (default_response\<lparr>body := Obj [(''ok'', Bool True)]\<rparr>), calls))"
proof -
  have "handleMessage rt env message [] = handleMessage_switch rt env message command []"
    using assms(5-8) by (simp add: handleMessage_not_bot)
  with run_event_callback [OF assms(1-4)] show ?thesis
    by simp
qed

lemma sublist_invalidated_text: "sublist ident (invalidated_text ident)"
  unfolding invalidated_text_def by (rule sublist_appendI)

lemma sublist_help_text_name: "sublist (env_text (BOT_NAME env)) (help_text env)"
  unfolding help_text_def by (rule sublist_appendI)

lemma sublist_help_text_command: "sublist ''invalidate_cdn'' (help_text env)"
proof -
  have "help_text env =
      (''Sir/Madam, I don't understand what you need. Please use `@'' @ env_text (BOT_NAME env)
         @ '' '') @ ''invalidate_cdn'' @ ''` to clear the CDN cache.''"
    by (simp add: help_text_def)
  then show ?thesis
    by (simp only: sublist_appendI)
qed

lemmas example_defs =
  example_env_def verification_body_def wrong_token_body_def invalidate_body_def
  bare_command_body_def foobar_body_def bot_body_def bot_command_body_def no_text_body_def
  other_type_body_def event_message_def example_parse_def example_runtime_def access_denied_def failing_runtime_def
  no_headers_def retry_headers_def example_invalidation_def

section \<open>C1: one response per invocation\<close>

text \<open>
  C1: every invocation of \<^verbatim>\<open>run\<close> returns a Response, with statusCode 500 when the body
  is not valid JSON. The code means to do so (every error inside the \<^verbatim>\<open>try\<close> block gives
  500, and the \<^verbatim>\<open>finally\<close> block returns the response), but
  \<^verbatim>\<open>JSON.parse( data.body )\<close> stands before the \<^verbatim>\<open>try\<close>: for the body
  \<^verbatim>\<open>not json\<close> the promise of \<^verbatim>\<open>run\<close> rejects with the SyntaxError, there is no
  Response and no call.
\<close>

theorem run_not_json_rejects:
  "run example_runtime example_env \<lparr>request.body = ''not json'', headers = no_headers\<rparr>
     = (Inl SyntaxError, [])"
  by (simp add: run_def example_runtime_def example_parse_def verification_body_def
      wrong_token_body_def invalidate_body_def bare_command_body_def foobar_body_def bot_body_def
      bot_command_body_def no_text_body_def other_type_body_def)

section \<open>C2: the parsed command\<close>

text \<open>
  C2 as stated: the command is the second whitespace-separated token, undefined or empty
  for a text of fewer than two tokens such as \<^verbatim>\<open>@bot\<close>, which therefore falls into the
  help branch. It fails: for \<^verbatim>\<open>@bot\<close> the array of pieces is \<^verbatim>\<open>['@bot']\<close> and
  \<^verbatim>\<open>pop()\<close> gives \<^verbatim>\<open>'@bot'\<close>; with two spaces between the mention and the command,
  the command is the empty piece between them; and the one-token text
  \<^verbatim>\<open>invalidate_cdn\<close> is the command \<^verbatim>\<open>invalidate_cdn\<close>, which is not the help branch.
\<close>

theorem parseMessage_counterexample:
  "parseMessage (Str ''@bot'') = Inr (Str ''@bot'')
   \<and> parseMessage (Str ''@bot  invalidate_cdn'') = Inr (Str [])
   \<and> parseMessage (Str ''invalidate_cdn'') = Inr (Str ''invalidate_cdn'')"
  by (simp add: parseMessage_def js_split_def pop_def numeral_2_eq_2)

text \<open>
  C2, amended: for every message text, the parsed command is the last of the first two
  pieces of the text split at each space character: what stands between the first space and
  the next one (or the end) when the text has a space, the whole text when it has none.
  \<^verbatim>\<open>parseMessage("@bot invalidate_cdn")\<close> is \<^verbatim>\<open>invalidate_cdn\<close>. For every text
  without a space, such as \<^verbatim>\<open>@bot\<close>, the command is the text itself, never undefined,
  and unless that text is \<^verbatim>\<open>invalidate_cdn\<close> the command falls into the default (help)
  branch of the switch.
\<close>

theorem parseMessage_last_of_two_pieces:
  "parseMessage (Str s) =
     Inr (Str (if CHR '' '' \<in> set s
               then takeWhile (\<lambda>x. x \<noteq> CHR '' '') (tl (dropWhile (\<lambda>x. x \<noteq> CHR '' '') s))
               else s))
   \<and> parseMessage (Str ''@bot invalidate_cdn'') = Inr (Str ''invalidate_cdn'')
   \<and> parseMessage (Str ''@bot'') = Inr (Str ''@bot'')
   \<and> (CHR '' '' \<notin> set s \<longrightarrow> parseMessage (Str s) = Inr (Str s))
   \<and> (CHR '' '' \<notin> set s \<and> s \<noteq> ''invalidate_cdn'' \<longrightarrow>
        handleMessage_switch rt env message (Str s) calls =
          (case get_property message ''channel'' of
             Inl err \<Rightarrow> (Inl err, calls)
           | Inr chan \<Rightarrow> sendSlackMessage rt env chan (help_text env) calls))"
  by (simp add: parseMessage_Str handleMessage_switch_def)

theorem parseMessage_last_of_two_pieces_witness:
  "parseMessage (Str ''@bot foobar please'') = Inr (Str ''foobar'')
   \<and> parseMessage (Str ''@bot'') = Inr (Str ''@bot'')
   \<and> handleMessage_switch example_runtime example_env
        (Obj [(''text'', Str ''@bot''), (''channel'', Str ''C1'')]) (Str ''@bot'') [] =
      (Inr (), [PostMessage \<lparr>token = Str ''xoxb-1'', channel = Str ''C1'',
                             text = help_text example_env\<rparr>])"
proof -
  let ?message = "Obj [(''text'', Str ''@bot''), (''channel'', Str ''C1'')]"
  have 1: "CHR '' '' \<notin> set ''@bot''"
    by simp
  have 2: "''@bot'' \<noteq> ''invalidate_cdn''"
    by simp
  from parseMessage_last_of_two_pieces [of "''@bot foobar please''"]
  have a: "parseMessage (Str ''@bot foobar please'') = Inr (Str ''foobar'')"
    by simp
  from parseMessage_last_of_two_pieces [of "''@bot''" example_runtime example_env ?message "[]"] 1 2
  have b: "parseMessage (Str ''@bot'') = Inr (Str ''@bot'')
      \<and> handleMessage_switch example_runtime example_env ?message (Str ''@bot'') [] =
          (case get_property ?message ''channel'' of
             Inl err \<Rightarrow> (Inl err, [])
           | Inr chan \<Rightarrow> sendSlackMessage example_runtime example_env chan (help_text example_env) [])"
    by blast
  from a b show ?thesis
    by (simp add: sendSlackMessage_def example_runtime_def example_env_def env_value_def)
qed

section \<open>C3: a retried delivery is ignored\<close>

text \<open>
  C3: for every request whose headers contain the key \<^verbatim>\<open>X-Slack-Retry-Num\<close> and whose body
  parses as JSON, \<^verbatim>\<open>run\<close> returns the default response as it was built (statusCode 200,
  the empty object as body, the no-retry header) and performs no call, whatever the parsed
  event is.
\<close>

theorem retry_header_default_response:
  assumes "JSON_parse rt (request.body data) = Inr dataObject"
      and "request.headers data = Obj hs"
      and "''X-Slack-Retry-Num'' \<in> fst ` set hs"
  shows "run rt env data =
     (Inr \<lparr>statusCode = 200, body = Obj [],
           headers = Obj [(''X-Slack-No-Retry'', Num (Finite 1))]\<rparr>, [])"
proof -
  from assms(3) have "map_of hs ''X-Slack-Retry-Num'' \<noteq> None"
    by (simp add: map_of_eq_None_iff)
  with assms(2) have "retry_header_in (request.headers data) = Inr True"
    by simp
  with assms(1) show ?thesis
    by (simp add: run_parsed try_block_retry default_response_def)
qed

theorem retry_header_default_response_witness:
  "run example_runtime example_env \<lparr>request.body = invalidate_body, headers = retry_headers\<rparr> =
     (Inr \<lparr>statusCode = 200, body = Obj [],
           headers = Obj [(''X-Slack-No-Retry'', Num (Finite 1))]\<rparr>, [])"
proof -
  let ?data = "\<lparr>request.body = invalidate_body, headers = retry_headers\<rparr>"
  have 1: "JSON_parse example_runtime (request.body ?data) = Inr (event_message ''@bot invalidate_cdn'')"
    by (simp add: example_defs)
  have 2: "request.headers ?data =
      Obj [(''Content-Type'', Str ''application/json''), (''X-Slack-Retry-Num'', Str ''1'')]"
    by (simp add: retry_headers_def)
  have 3: "''X-Slack-Retry-Num'' \<in>
      fst ` set [(''Content-Type'', Str ''application/json''), (''X-Slack-Retry-Num'', Str ''1'')]"
    by simp
  show ?thesis
    by (rule retry_header_default_response [OF 1 2 3])
qed

section \<open>C4: the invalidate_cdn command\<close>

text \<open>
  C4 as stated: every event_callback with a message that is not bot-authored and the command
  \<^verbatim>\<open>invalidate_cdn\<close> gives one invalidation call and then one message-send call. It
  fails on two requests with the text \<^verbatim>\<open>@bot invalidate_cdn\<close>: with the header
  \<^verbatim>\<open>X-Slack-Retry-Num\<close> no call is performed at all, and when CloudFront answers with an
  error the invalidation call is the only one, no message is sent.
\<close>

theorem invalidate_cdn_counterexample:
  "run example_runtime example_env \<lparr>request.body = invalidate_body, headers = retry_headers\<rparr> =
     (Inr \<lparr>statusCode = 200, body = Obj [],
           headers = Obj [(''X-Slack-No-Retry'', Num (Finite 1))]\<rparr>, [])
   \<and> snd (run failing_runtime example_env \<lparr>request.body = invalidate_body, headers = no_headers\<rparr>)
       = [CreateInvalidation example_invalidation]"
  by (simp add: run_def try_block_def handleMessage_def handleMessage_switch_def
      invalidateDistribution_def parseMessage_def js_split_def pop_def
      default_response_def env_value_def catch_block_def example_defs decimal.simps)

text \<open>
  C4, amended: for every event_callback delivered without the retry header, whose message is
  not bot-authored and whose parsed command is \<^verbatim>\<open>invalidate_cdn\<close>, \<^verbatim>\<open>run\<close> performs
  one invalidation call first. When that call returns its data, exactly one message-send call
  follows it, to the channel of the message, and its text contains the invalidation
  identifier of the data. When the invalidation call fails, no message is sent and the error
  goes to the catch block.
\<close>

theorem invalidate_cdn_calls:
  assumes "JSON_parse rt (request.body data) = Inr dataObject"
      and "retry_header_in (request.headers data) = Inr False"
      and "get_property dataObject ''type'' = Inr (Str ''event_callback'')"
      and "get_property dataObject ''event'' = Inr message"
      and "get_property message ''bot_id'' = Inr bot_id" and "\<not> truthy bot_id"
      and "get_property message ''text'' = Inr txt"
      and "parseMessage txt = Inr (Str ''invalidate_cdn'')"
      and "get_property message ''channel'' = Inr chan"
      and "params = \<lparr>DistributionId = env_value (CDN_DISTRIBUTION env),
                      CallerReference = decimal (Date_now rt),
                      Paths_Quantity = ''1'', Paths_Items = [''/*'']\<rparr>"
  shows "(\<forall>d. CloudFront_createInvalidation rt params = Inr d \<longrightarrow>
            snd (run rt env data) =
              [CreateInvalidation params,
               PostMessage \<lparr>token = env_value (BOT_TOKEN env), channel = chan,
                            text = invalidated_text (Invalidation_Id d)\<rparr>]
            \<and> sublist (Invalidation_Id d) (invalidated_text (Invalidation_Id d)))
       \<and> (\<forall>err. CloudFront_createInvalidation rt params = Inl err \<longrightarrow>
            run rt env data =
              (Inr (catch_block err default_response), [CreateInvalidation params]))"
proof -
  have h: "handleMessage rt env message [] =
      handleMessage_switch rt env message (Str ''invalidate_cdn'') []"
    using assms(5-8) by (simp add: handleMessage_not_bot)
  have r: "run rt env data =
     (case handleMessage_switch rt env message (Str ''invalidate_cdn'') [] of
        (Inl err, calls) \<Rightarrow> (Inr (catch_block err default_response), calls)
      | (Inr u, calls) \<Rightarrow> (Inr (default_response\<lparr>body := Obj [(''ok'', Bool True)]\<rparr>), calls))"
    using run_event_callback [OF assms(1-4)] h by simp
  show ?thesis
    using assms(9,10)
    by (auto simp: r switch_invalidate_cdn Let_def sublist_invalidated_text
        split: sum.splits)
qed

theorem invalidate_cdn_calls_witness:
  \<open>snd (run example_runtime example_env \<lparr>request.body = invalidate_body, headers = no_headers\<rparr>)
     = [CreateInvalidation example_invalidation,
        PostMessage \<lparr>token = Str ''xoxb-1'', channel = Str ''C1'',
                     text = invalidated_text ''I2J0I21PCUYOIK''\<rparr>]
   \<and> sublist ''I2J0I21PCUYOIK'' (invalidated_text ''I2J0I21PCUYOIK'')
   \<and> run failing_runtime example_env \<lparr>request.body = invalidate_body, headers = no_headers\<rparr>
     = (Inr \<lparr>statusCode = 500, body = Str ''{"code":"AccessDenied","statusCode":403}'',
             headers = Obj [(''X-Slack-No-Retry'', Num (Finite 1))]\<rparr>,
        [CreateInvalidation example_invalidation])\<close>
proof -
  let ?data = "\<lparr>request.body = invalidate_body, headers = no_headers\<rparr>"
  let ?message = "Obj [(''text'', Str ''@bot invalidate_cdn''), (''channel'', Str ''C1'')]"
  let ?obj = "Obj [(''type'', Str ''event_callback''), (''event'', ?message)]"
  have 1: "JSON_parse example_runtime (request.body ?data) = Inr ?obj"
    by (simp add: example_defs)
  have f1: "JSON_parse failing_runtime (request.body ?data) = Inr ?obj"
    by (simp add: example_defs)
  have 2: "retry_header_in (request.headers ?data) = Inr False"
    by (simp add: no_headers_def)
  have 3: "get_property ?obj ''type'' = Inr (Str ''event_callback'')"
    by simp
  have 4: "get_property ?obj ''event'' = Inr ?message"
    by simp
  have 5: "get_property ?message ''bot_id'' = Inr Undefined"
    by simp
  have 6: "\<not> truthy Undefined"
    by simp
  have 7: "get_property ?message ''text'' = Inr (Str ''@bot invalidate_cdn'')"
    by simp
  have 8: "parseMessage (Str ''@bot invalidate_cdn'') = Inr (Str ''invalidate_cdn'')"
    by (simp add: parseMessage_Str)
  have 9: "get_property ?message ''channel'' = Inr (Str ''C1'')"
    by simp
  have 10: "example_invalidation =
      \<lparr>DistributionId = env_value (CDN_DISTRIBUTION example_env),
       CallerReference = decimal (Date_now example_runtime),
       Paths_Quantity = ''1'', Paths_Items = [''/*'']\<rparr>"
    by (simp add: example_defs env_value_def decimal.simps)
  have f10: "example_invalidation =
      \<lparr>DistributionId = env_value (CDN_DISTRIBUTION example_env),
       CallerReference = decimal (Date_now failing_runtime),
       Paths_Quantity = ''1'', Paths_Items = [''/*'']\<rparr>"
    by (simp add: example_defs env_value_def decimal.simps)
  have ok: "CloudFront_createInvalidation example_runtime example_invalidation
      = Inr \<lparr>Invalidation_Id = ''I2J0I21PCUYOIK''\<rparr>"
    by (simp add: example_runtime_def)
  have ko: "CloudFront_createInvalidation failing_runtime example_invalidation
      = Inl access_denied"
    by (simp add: failing_runtime_def)
  from invalidate_cdn_calls [OF 1 2 3 4 5 6 7 8 9 10] ok
  have a: "snd (run example_runtime example_env ?data)
     = [CreateInvalidation example_invalidation,
        PostMessage \<lparr>token = env_value (BOT_TOKEN example_env), channel = Str ''C1'',
                     text = invalidated_text ''I2J0I21PCUYOIK''\<rparr>]
     \<and> sublist ''I2J0I21PCUYOIK'' (invalidated_text ''I2J0I21PCUYOIK'')"
    by simp
  from invalidate_cdn_calls [OF f1 2 3 4 5 6 7 8 9 f10] ko
  have b: "run failing_runtime example_env ?data
     = (Inr (catch_block access_denied default_response),
        [CreateInvalidation example_invalidation])"
    by simp
  from a b show ?thesis
    by (simp add: example_env_def env_value_def catch_block_def access_denied_def
        default_response_def)
qed

section \<open>C5: url_verification\<close>

text \<open>
  C5: for every url_verification event delivered without the retry header, \<^verbatim>\<open>run\<close>
  returns statusCode 200 with the challenge of the input as body if and only if the token of
  the event equals (\<^verbatim>\<open>===\<close>) the configured verification token; when it does not,
  the string thrown by \<^verbatim>\<open>verifyCall\<close> reaches the catch block and the response has
  statusCode 500. No call is performed either way.
\<close>

theorem url_verification_response:
  assumes "JSON_parse rt (request.body data) = Inr dataObject"
      and "retry_header_in (request.headers data) = Inr False"
      and "get_property dataObject ''type'' = Inr (Str ''url_verification'')"
      and "get_property dataObject ''token'' = Inr tok"
      and "get_property dataObject ''challenge'' = Inr challenge"
  shows "(strict_equals tok (env_value (VERIFICATION_TOKEN env)) \<longrightarrow>
            run rt env data =
              (Inr \<lparr>statusCode = 200, body = challenge,
                    headers = Obj [(''X-Slack-No-Retry'', Num (Finite 1))]\<rparr>, []))
       \<and> (\<not> strict_equals tok (env_value (VERIFICATION_TOKEN env)) \<longrightarrow>
            run rt env data =
              (Inr \<lparr>statusCode = 500,
                    body = Str (CHR 0x22 # ''Verification failed'' @ [CHR 0x22]),
                    headers = Obj [(''X-Slack-No-Retry'', Num (Finite 1))]\<rparr>, []))
       \<and> ((\<exists>resp. fst (run rt env data) = Inr resp \<and> statusCode resp = 200
                \<and> response.body resp = challenge)
            \<longleftrightarrow> strict_equals tok (env_value (VERIFICATION_TOKEN env)))"
proof (cases "strict_equals tok (env_value (VERIFICATION_TOKEN env))")
  case True
  with assms have "run rt env data =
      (Inr \<lparr>statusCode = 200, body = challenge,
            headers = Obj [(''X-Slack-No-Retry'', Num (Finite 1))]\<rparr>, [])"
    by (simp add: run_parsed try_block_def verifyCall_def default_response_def)
  with True show ?thesis by simp
next
  case False
  with assms have "run rt env data =
      (Inr \<lparr>statusCode = 500,
            body = Str (CHR 0x22 # ''Verification failed'' @ [CHR 0x22]),
            headers = Obj [(''X-Slack-No-Retry'', Num (Finite 1))]\<rparr>, [])"
    by (simp add: run_parsed try_block_def verifyCall_def default_response_def catch_block_def)
  with False show ?thesis by simp
qed

theorem url_verification_response_witness:
  "run example_runtime example_env \<lparr>request.body = verification_body, headers = no_headers\<rparr> =
     (Inr \<lparr>statusCode = 200, body = Str ''abc123'',
           headers = Obj [(''X-Slack-No-Retry'', Num (Finite 1))]\<rparr>, [])
   \<and> run example_runtime example_env \<lparr>request.body = wrong_token_body, headers = no_headers\<rparr> =
     (Inr \<lparr>statusCode = 500, body = Str (CHR 0x22 # ''Verification failed'' @ [CHR 0x22]),
           headers = Obj [(''X-Slack-No-Retry'', Num (Finite 1))]\<rparr>, [])"
proof -
  let ?good = "\<lparr>request.body = verification_body, headers = no_headers\<rparr>"
  let ?good_obj = "Obj [(''type'', Str ''url_verification''), (''token'', Str ''s3cret''),
                  (''challenge'', Str ''abc123'')]"
  let ?bad = "\<lparr>request.body = wrong_token_body, headers = no_headers\<rparr>"
  let ?bad_obj = "Obj [(''type'', Str ''url_verification''), (''token'', Str ''guess''),
                  (''challenge'', Str ''abc123'')]"
  have g1: "JSON_parse example_runtime (request.body ?good) = Inr ?good_obj"
    by (simp add: example_defs)
  have g2: "retry_header_in (request.headers ?good) = Inr False"
    by (simp add: no_headers_def)
  have g3: "get_property ?good_obj ''type'' = Inr (Str ''url_verification'')"
    by simp
  have g4: "get_property ?good_obj ''token'' = Inr (Str ''s3cret'')"
    by simp
  have g5: "get_property ?good_obj ''challenge'' = Inr (Str ''abc123'')"
    by simp
  have g6: "strict_equals (Str ''s3cret'') (env_value (VERIFICATION_TOKEN example_env))"
    by (simp add: example_env_def env_value_def)
  have b1: "JSON_parse example_runtime (request.body ?bad) = Inr ?bad_obj"
    by (simp add: example_defs)
  have b2: "retry_header_in (request.headers ?bad) = Inr False"
    by (simp add: no_headers_def)
  have b3: "get_property ?bad_obj ''type'' = Inr (Str ''url_verification'')"
    by simp
  have b4: "get_property ?bad_obj ''token'' = Inr (Str ''guess'')"
    by simp
  have b5: "get_property ?bad_obj ''challenge'' = Inr (Str ''abc123'')"
    by simp
  have b6: "\<not> strict_equals (Str ''guess'') (env_value (VERIFICATION_TOKEN example_env))"
    by (simp add: example_env_def env_value_def)
  from url_verification_response [OF g1 g2 g3 g4 g5, of example_env] g6
  have 1: "run example_runtime example_env ?good =
     (Inr \<lparr>statusCode = 200, body = Str ''abc123'',
           headers = Obj [(''X-Slack-No-Retry'', Num (Finite 1))]\<rparr>, [])"
    by blast
  from url_verification_response [OF b1 b2 b3 b4 b5, of example_env] b6
  have 2: "run example_runtime example_env ?bad =
     (Inr \<lparr>statusCode = 500, body = Str (CHR 0x22 # ''Verification failed'' @ [CHR 0x22]),
           headers = Obj [(''X-Slack-No-Retry'', Num (Finite 1))]\<rparr>, [])"
    by blast
  from 1 2 show ?thesis by (rule conjI)
qed

section \<open>C6: messages of a bot\<close>

text \<open>
  C6 as stated: every event_callback whose \<^verbatim>\<open>event.bot_id\<close> is set gives the body
  \<^verbatim>\<open>{ok: true}\<close>. It fails for a delivery with the header \<^verbatim>\<open>X-Slack-Retry-Num\<close>:
  the event is not looked at and the body stays the empty object of the default response.
\<close>

theorem bot_message_counterexample:
  "run example_runtime example_env \<lparr>request.body = bot_body, headers = retry_headers\<rparr> =
     (Inr \<lparr>statusCode = 200, body = Obj [],
           headers = Obj [(''X-Slack-No-Retry'', Num (Finite 1))]\<rparr>, [])
   \<and> Obj [] \<noteq> Obj [(''ok'', Bool True)]"
  by (simp add: run_def try_block_def default_response_def example_defs)

text \<open>
  C6, amended: for every event_callback delivered without the retry header whose
  \<^verbatim>\<open>event.bot_id\<close> is set (truthy), \<^verbatim>\<open>run\<close> performs no message-send call and no
  invalidation call, and returns statusCode 200 with body \<^verbatim>\<open>{ok: true}\<close>.
\<close>

theorem bot_message_ignored:
  assumes "JSON_parse rt (request.body data) = Inr dataObject"
      and "retry_header_in (request.headers data) = Inr False"
      and "get_property dataObject ''type'' = Inr (Str ''event_callback'')"
      and "get_property dataObject ''event'' = Inr message"
      and "get_property message ''bot_id'' = Inr bot_id" and "truthy bot_id"
  shows "run rt env data =
     (Inr \<lparr>statusCode = 200, body = Obj [(''ok'', Bool True)],
           headers = Obj [(''X-Slack-No-Retry'', Num (Finite 1))]\<rparr>, [])"
  using run_event_callback [OF assms(1-4)] assms(5,6)
  by (simp add: handleMessage_bot default_response_def)

theorem bot_message_ignored_witness:
  "run example_runtime example_env \<lparr>request.body = bot_body, headers = no_headers\<rparr> =
     (Inr \<lparr>statusCode = 200, body = Obj [(''ok'', Bool True)],
           headers = Obj [(''X-Slack-No-Retry'', Num (Finite 1))]\<rparr>, [])"
proof -
  let ?data = "\<lparr>request.body = bot_body, headers = no_headers\<rparr>"
  let ?message = "Obj [(''text'', Str ''done''), (''channel'', Str ''C1''), (''bot_id'', Str ''B1'')]"
  let ?obj = "Obj [(''type'', Str ''event_callback''), (''event'', ?message)]"
  have 1: "JSON_parse example_runtime (request.body ?data) = Inr ?obj"
    by (simp add: example_defs)
  have 2: "retry_header_in (request.headers ?data) = Inr False"
    by (simp add: no_headers_def)
  have 3: "get_property ?obj ''type'' = Inr (Str ''event_callback'')"
    by simp
  have 4: "get_property ?obj ''event'' = Inr ?message"
    by simp
  have 5: "get_property ?message ''bot_id'' = Inr (Str ''B1'')"
    by simp
  have 6: "truthy (Str ''B1'')"
    by simp
  show ?thesis
    by (rule bot_message_ignored [OF 1 2 3 4 5 6])
qed

section \<open>C7: the help message\<close>

text \<open>
  C7 as stated: every event_callback with a message that is not bot-authored and a command
  other than \<^verbatim>\<open>invalidate_cdn\<close> gives exactly one message-send call. It fails for a
  delivery of \<^verbatim>\<open>@bot foobar\<close> with the header \<^verbatim>\<open>X-Slack-Retry-Num\<close>: no call is
  performed.
\<close>

theorem help_message_counterexample:
  "snd (run example_runtime example_env \<lparr>request.body = foobar_body, headers = retry_headers\<rparr>)
     = []"
  by (simp add: run_def try_block_def default_response_def example_defs)

text \<open>
  C7, amended: for every event_callback delivered without the retry header, whose message is
  not bot-authored and whose parsed command is anything other than \<^verbatim>\<open>invalidate_cdn\<close>,
  \<^verbatim>\<open>run\<close> performs no invalidation call and exactly one message-send call, to the channel
  of the message, whose text is the help string: it contains the bot name of the
  configuration (\<^verbatim>\<open>BOT_NAME\<close>) and names the command \<^verbatim>\<open>invalidate_cdn\<close>.
\<close>

theorem help_message_calls:
  assumes "JSON_parse rt (request.body data) = Inr dataObject"
      and "retry_header_in (request.headers data) = Inr False"
      and "get_property dataObject ''type'' = Inr (Str ''event_callback'')"
      and "get_property dataObject ''event'' = Inr message"
      and "get_property message ''bot_id'' = Inr bot_id" and "\<not> truthy bot_id"
      and "get_property message ''text'' = Inr txt"
      and "parseMessage txt = Inr command"
      and "\<not> strict_equals command (Str ''invalidate_cdn'')"
      and "get_property message ''channel'' = Inr chan"
  shows "snd (run rt env data) =
           [PostMessage \<lparr>token = env_value (BOT_TOKEN env), channel = chan,
                         text = help_text env\<rparr>]
       \<and> sublist (env_text (BOT_NAME env)) (help_text env)
       \<and> sublist ''invalidate_cdn'' (help_text env)"
  using run_not_bot [OF assms(1-8)] switch_default [OF assms(9,10)]
  by (simp add: Let_def sublist_help_text_name sublist_help_text_command split: sum.splits)

theorem help_message_calls_witness:
  "snd (run example_runtime example_env \<lparr>request.body = foobar_body, headers = no_headers\<rparr>) =
     [PostMessage \<lparr>token = Str ''xoxb-1'', channel = Str ''C1'', text = help_text example_env\<rparr>]
   \<and> sublist ''cdnbot'' (help_text example_env)
   \<and> sublist ''invalidate_cdn'' (help_text example_env)"
proof -
  let ?data = "\<lparr>request.body = foobar_body, headers = no_headers\<rparr>"
  let ?message = "Obj [(''text'', Str ''@bot foobar''), (''channel'', Str ''C1'')]"
  let ?obj = "Obj [(''type'', Str ''event_callback''), (''event'', ?message)]"
  have 1: "JSON_parse example_runtime (request.body ?data) = Inr ?obj"
    by (simp add: example_defs)
  have 2: "retry_header_in (request.headers ?data) = Inr False"
    by (simp add: no_headers_def)
  have 3: "get_property ?obj ''type'' = Inr (Str ''event_callback'')"
    by simp
  have 4: "get_property ?obj ''event'' = Inr ?message"
    by simp
  have 5: "get_property ?message ''bot_id'' = Inr Undefined"
    by simp
  have 6: "\<not> truthy Undefined"
    by simp
  have 7: "get_property ?message ''text'' = Inr (Str ''@bot foobar'')"
    by simp
  have 8: "parseMessage (Str ''@bot foobar'') = Inr (Str ''foobar'')"
    by (simp add: parseMessage_Str)
  have 9: "\<not> strict_equals (Str ''foobar'') (Str ''invalidate_cdn'')"
    by simp
  have 10: "get_property ?message ''channel'' = Inr (Str ''C1'')"
    by simp
  from help_message_calls [OF 1 2 3 4 5 6 7 8 9 10, of example_env]
  show ?thesis
    by (simp add: example_env_def env_value_def env_text_def)
qed

section \<open>C8: the headers of the response\<close>

text \<open>
  C8 as stated: the headers of every returned Response are the mapping of
  \<^verbatim>\<open>X-Slack-No-Retry\<close> to the string \<^verbatim>\<open>"1"\<close>. It fails: the value the source writes
  is the number \<^verbatim>\<open>1\<close>.
\<close>

theorem headers_counterexample:
  "fst (run example_runtime example_env \<lparr>request.body = verification_body, headers = no_headers\<rparr>)
     = Inr \<lparr>statusCode = 200, body = Str ''abc123'',
            headers = Obj [(''X-Slack-No-Retry'', Num (Finite 1))]\<rparr>
   \<and> Obj [(''X-Slack-No-Retry'', Num (Finite 1))] \<noteq> Obj [(''X-Slack-No-Retry'', Str ''1'')]"
  by (simp add: run_def try_block_def verifyCall_def default_response_def env_value_def
      example_defs)

text \<open>
  C8, amended: on every path that produces a Response, its headers are the mapping of
  \<^verbatim>\<open>X-Slack-No-Retry\<close> to the number 1, as in the default response. Once the body has
  parsed, the \<^verbatim>\<open>finally\<close> block returns the response whatever happened before: as the
  \<^verbatim>\<open>try\<close> block left it when that completed, with statusCode 500 when it threw.
\<close>

theorem response_headers_unchanged:
  "(\<forall>resp. fst (run rt env data) = Inr resp \<longrightarrow>
      response.headers resp = Obj [(''X-Slack-No-Retry'', Num (Finite 1))])
   \<and> (\<forall>dataObject. JSON_parse rt (request.body data) = Inr dataObject \<longrightarrow>
        (\<exists>resp. run rt env data =
           (Inr resp, snd (snd (try_block rt env data dataObject default_response)))
         \<and> response.headers resp = Obj [(''X-Slack-No-Retry'', Num (Finite 1))]
         \<and> (\<forall>u. fst (try_block rt env data dataObject default_response) = Inr u \<longrightarrow>
               resp = fst (snd (try_block rt env data dataObject default_response)))
         \<and> (\<forall>err. fst (try_block rt env data dataObject default_response) = Inl err \<longrightarrow>
               statusCode resp = 500)))"
proof -
  have 1: "\<forall>resp. fst (run rt env data) = Inr resp \<longrightarrow>
      response.headers resp = Obj [(''X-Slack-No-Retry'', Num (Finite 1))]"
    by (simp add: run_headers)
  have 2: "\<exists>resp. run rt env data =
           (Inr resp, snd (snd (try_block rt env data dataObject default_response)))
         \<and> response.headers resp = Obj [(''X-Slack-No-Retry'', Num (Finite 1))]
         \<and> (\<forall>u. fst (try_block rt env data dataObject default_response) = Inr u \<longrightarrow>
               resp = fst (snd (try_block rt env data dataObject default_response)))
         \<and> (\<forall>err. fst (try_block rt env data dataObject default_response) = Inl err \<longrightarrow>
               statusCode resp = 500)"
    if p: "JSON_parse rt (request.body data) = Inr dataObject" for dataObject
  proof -
    obtain r resp' calls where
      t: "try_block rt env data dataObject default_response = (r, resp', calls)"
      by (cases "try_block rt env data dataObject default_response") auto
    have h: "response.headers resp' = Obj [(''X-Slack-No-Retry'', Num (Finite 1))]"
      using try_block_headers [OF t] by (simp add: default_response_def)
    show ?thesis
      using p t h
      by (cases r) (simp_all add: run_def catch_block_headers catch_block_statusCode)
  qed
  from 1 2 show ?thesis by blast
qed

theorem response_headers_unchanged_witness:
  "run example_runtime example_env \<lparr>request.body = other_type_body, headers = no_headers\<rparr> =
     (Inr \<lparr>statusCode = 400, body = Str ''Empty request'',
           headers = Obj [(''X-Slack-No-Retry'', Num (Finite 1))]\<rparr>, [])"
proof -
  let ?data = "\<lparr>request.body = other_type_body, headers = no_headers\<rparr>"
  let ?obj = "Obj [(''type'', Str ''app_rate_limited'')]"
  let ?resp = "\<lparr>statusCode = 400, body = Str ''Empty request'',
           headers = Obj [(''X-Slack-No-Retry'', Num (Finite 1))]\<rparr>"
  have 1: "JSON_parse example_runtime (request.body ?data) = Inr ?obj"
    by (simp add: example_defs)
  have 2: "try_block example_runtime example_env ?data ?obj default_response = (Inr (), ?resp, [])"
    by (simp add: try_block_def default_response_def no_headers_def)
  from response_headers_unchanged [of example_runtime example_env ?data] 1
  obtain resp where
    r: "run example_runtime example_env ?data =
          (Inr resp, snd (snd (try_block example_runtime example_env ?data ?obj default_response)))"
    and e: "\<forall>u. fst (try_block example_runtime example_env ?data ?obj default_response) = Inr u \<longrightarrow>
               resp = fst (snd (try_block example_runtime example_env ?data ?obj default_response))"
    by blast
  from e 2 have "resp = ?resp"
    by simp
  with r 2 show ?thesis
    by simp
qed

section \<open>C9: a text without a space\<close>

text \<open>
  C9 as stated: every event_callback message whose full text is exactly
  \<^verbatim>\<open>invalidate_cdn\<close> dispatches the invalidation command. It fails on two requests with
  that text: delivered with the header \<^verbatim>\<open>X-Slack-Retry-Num\<close> the event is not looked at,
  and with a \<^verbatim>\<open>bot_id\<close> the message is ignored; neither performs a call.
\<close>

theorem bare_command_counterexample:
  "snd (run example_runtime example_env
          \<lparr>request.body = bare_command_body, headers = retry_headers\<rparr>) = []
   \<and> run example_runtime example_env \<lparr>request.body = bot_command_body, headers = no_headers\<rparr> =
       (Inr \<lparr>statusCode = 200, body = Obj [(''ok'', Bool True)],
             headers = Obj [(''X-Slack-No-Retry'', Num (Finite 1))]\<rparr>, [])"
  by (simp add: run_def try_block_def handleMessage_def default_response_def example_defs)

text \<open>
  C9, amended: for every message text without a space character, \<^verbatim>\<open>parseMessage\<close>
  returns the whole text, not \<^verbatim>\<open>undefined\<close>. So with the text \<^verbatim>\<open>invalidate_cdn\<close>,
  with no mention of the bot before it, the switch of \<^verbatim>\<open>handleMessage\<close> takes the
  \<^verbatim>\<open>invalidate_cdn\<close> case and calls the invalidation first; and an event_callback
  delivered without the retry header, whose message is not bot-authored and has exactly that
  text, starts with the invalidation call.
\<close>

theorem parseMessage_without_space:
  "(CHR '' '' \<notin> set s \<longrightarrow> parseMessage (Str s) = Inr (Str s))
   \<and> parseMessage (Str ''invalidate_cdn'') = Inr (Str ''invalidate_cdn'')
   \<and> (\<exists>rest. snd (handleMessage_switch rt env message (Str ''invalidate_cdn'') calls) =
         calls @ CreateInvalidation
           \<lparr>DistributionId = env_value (CDN_DISTRIBUTION env),
            CallerReference = decimal (Date_now rt),
            Paths_Quantity = ''1'', Paths_Items = [''/*'']\<rparr> # rest)
   \<and> (JSON_parse rt (request.body data) = Inr dataObject
        \<and> retry_header_in (request.headers data) = Inr False
        \<and> get_property dataObject ''type'' = Inr (Str ''event_callback'')
        \<and> get_property dataObject ''event'' = Inr message
        \<and> get_property message ''bot_id'' = Inr bot_id \<and> \<not> truthy bot_id
        \<and> get_property message ''text'' = Inr (Str ''invalidate_cdn'') \<longrightarrow>
        (\<exists>rest. snd (run rt env data) =
           CreateInvalidation
             \<lparr>DistributionId = env_value (CDN_DISTRIBUTION env),
              CallerReference = decimal (Date_now rt),
              Paths_Quantity = ''1'', Paths_Items = [''/*'']\<rparr> # rest))"
proof -
  have 1: "CHR '' '' \<notin> set s \<longrightarrow> parseMessage (Str s) = Inr (Str s)"
    by (simp add: parseMessage_Str)
  have 2: "parseMessage (Str ''invalidate_cdn'') = Inr (Str ''invalidate_cdn'')"
    by (simp add: parseMessage_Str)
  have 3: "\<exists>rest. snd (handleMessage_switch rt env message (Str ''invalidate_cdn'') calls) =
         calls @ CreateInvalidation
           \<lparr>DistributionId = env_value (CDN_DISTRIBUTION env),
            CallerReference = decimal (Date_now rt),
            Paths_Quantity = ''1'', Paths_Items = [''/*'']\<rparr> # rest" for calls
    by (simp add: switch_invalidate_cdn Let_def split: sum.splits)
  have 4: "\<exists>rest. snd (run rt env data) =
           CreateInvalidation
             \<lparr>DistributionId = env_value (CDN_DISTRIBUTION env),
              CallerReference = decimal (Date_now rt),
              Paths_Quantity = ''1'', Paths_Items = [''/*'']\<rparr> # rest"
    if h: "JSON_parse rt (request.body data) = Inr dataObject"
      "retry_header_in (request.headers data) = Inr False"
      "get_property dataObject ''type'' = Inr (Str ''event_callback'')"
      "get_property dataObject ''event'' = Inr message"
      "get_property message ''bot_id'' = Inr bot_id" "\<not> truthy bot_id"
      "get_property message ''text'' = Inr (Str ''invalidate_cdn'')"
  proof -
    obtain r calls' where
      sw: "handleMessage_switch rt env message (Str ''invalidate_cdn'') [] = (r, calls')"
      by (cases "handleMessage_switch rt env message (Str ''invalidate_cdn'') []") auto
    from 3 [of "[]"] sw obtain rest where
      c: "calls' = CreateInvalidation
             \<lparr>DistributionId = env_value (CDN_DISTRIBUTION env),
              CallerReference = decimal (Date_now rt),
              Paths_Quantity = ''1'', Paths_Items = [''/*'']\<rparr> # rest"
      by auto
    from run_not_bot [OF h 2, of env] sw have "snd (run rt env data) = calls'"
      by (cases r) simp_all
    with c show ?thesis
      by simp
  qed
  from 1 2 3 4 show ?thesis by blast
qed

theorem parseMessage_without_space_witness:
  "parseMessage (Str ''invalidate_cdn'') = Inr (Str ''invalidate_cdn'')
   \<and> (\<exists>rest. snd (run example_runtime example_env
          \<lparr>request.body = bare_command_body, headers = no_headers\<rparr>) =
        CreateInvalidation example_invalidation # rest)"
proof -
  let ?data = "\<lparr>request.body = bare_command_body, headers = no_headers\<rparr>"
  let ?message = "Obj [(''text'', Str ''invalidate_cdn''), (''channel'', Str ''C1'')]"
  let ?obj = "Obj [(''type'', Str ''event_callback''), (''event'', ?message)]"
  have 1: "CHR '' '' \<notin> set ''invalidate_cdn''"
    by simp
  have 2: "JSON_parse example_runtime (request.body ?data) = Inr ?obj
      \<and> retry_header_in (request.headers ?data) = Inr False
      \<and> get_property ?obj ''type'' = Inr (Str ''event_callback'')
      \<and> get_property ?obj ''event'' = Inr ?message
      \<and> get_property ?message ''bot_id'' = Inr Undefined \<and> \<not> truthy Undefined
      \<and> get_property ?message ''text'' = Inr (Str ''invalidate_cdn'')"
    by (simp add: example_defs)
  have 3: "\<lparr>DistributionId = env_value (CDN_DISTRIBUTION example_env),
       CallerReference = decimal (Date_now example_runtime),
       Paths_Quantity = ''1'', Paths_Items = [''/*'']\<rparr> = example_invalidation"
    by (simp add: example_defs env_value_def decimal.simps)
  from parseMessage_without_space
    [of "''invalidate_cdn''" example_runtime example_env ?message _ ?data ?obj Undefined] 1 2
  show ?thesis
    unfolding 3 by blast
qed

section \<open>C10: a text that is not a string\<close>

text \<open>
  C10 as stated: every event_callback whose event has no (or a falsy) \<^verbatim>\<open>bot_id\<close> and
  whose \<^verbatim>\<open>event.text\<close> is not a string gives statusCode 500. It fails for a delivery
  with the header \<^verbatim>\<open>X-Slack-Retry-Num\<close>: nothing is parsed, nothing is thrown, and the
  response is the default one with statusCode 200.
\<close>

theorem text_not_string_counterexample:
  "run example_runtime example_env \<lparr>request.body = no_text_body, headers = retry_headers\<rparr> =
     (Inr \<lparr>statusCode = 200, body = Obj [],
           headers = Obj [(''X-Slack-No-Retry'', Num (Finite 1))]\<rparr>, [])"
  by (simp add: run_def try_block_def default_response_def example_defs)

text \<open>
  C10, amended: for every event_callback delivered without the retry header, whose event has
  no (or a falsy) \<^verbatim>\<open>bot_id\<close> and whose \<^verbatim>\<open>event.text\<close> is not a string, the parsing of
  the command throws a TypeError; the catch block of \<^verbatim>\<open>run\<close> makes of it the response
  with statusCode 500 and the stringified error, \<^verbatim>\<open>{}\<close>, as body, and no invalidation
  or message-send call is made.
\<close>

theorem text_not_string_response:
  assumes "JSON_parse rt (request.body data) = Inr dataObject"
      and "retry_header_in (request.headers data) = Inr False"
      and "get_property dataObject ''type'' = Inr (Str ''event_callback'')"
      and "get_property dataObject ''event'' = Inr message"
      and "get_property message ''bot_id'' = Inr bot_id" and "\<not> truthy bot_id"
      and "get_property message ''text'' = Inr txt"
      and "\<not> is_string txt"
  shows "parseMessage txt = Inl TypeError
       \<and> run rt env data =
           (Inr \<lparr>statusCode = 500, body = Str ''{}'',
                 headers = Obj [(''X-Slack-No-Retry'', Num (Finite 1))]\<rparr>, [])"
proof -
  from assms(8) have p: "parseMessage txt = Inl TypeError"
    by (cases "txt") (simp_all add: parseMessage_def)
  have "handleMessage rt env message [] = (Inl TypeError, [])"
    using assms(5-7) p by (simp add: handleMessage_not_bot)
  with run_event_callback [OF assms(1-4)] p show ?thesis
    by (simp add: catch_block_def default_response_def)
qed

theorem text_not_string_response_witness:
  "parseMessage Undefined = Inl TypeError
   \<and> run example_runtime example_env \<lparr>request.body = no_text_body, headers = no_headers\<rparr> =
       (Inr \<lparr>statusCode = 500, body = Str ''{}'',
             headers = Obj [(''X-Slack-No-Retry'', Num (Finite 1))]\<rparr>, [])"
proof -
  let ?data = "\<lparr>request.body = no_text_body, headers = no_headers\<rparr>"
  let ?message = "Obj [(''channel'', Str ''C1'')]"
  let ?obj = "Obj [(''type'', Str ''event_callback''), (''event'', ?message)]"
  have 1: "JSON_parse example_runtime (request.body ?data) = Inr ?obj"
    by (simp add: example_defs)
  have 2: "retry_header_in (request.headers ?data) = Inr False"
    by (simp add: no_headers_def)
  have 3: "get_property ?obj ''type'' = Inr (Str ''event_callback'')"
    by simp
  have 4: "get_property ?obj ''event'' = Inr ?message"
    by simp
  have 5: "get_property ?message ''bot_id'' = Inr Undefined"
    by simp
  have 6: "\<not> truthy Undefined"
    by simp
  have 7: "get_property ?message ''text'' = Inr Undefined"
    by simp
  have 8: "\<not> is_string Undefined"
    by simp
  show ?thesis
    by (rule text_not_string_response [OF 1 2 3 4 5 6 7 8])
qed

end
